theory Spec2Isabelle
  imports Complex_Main
begin

section \<open>MATHION: the quiz session and the high-score store of src/index.tsx\<close>

text \<open>
  The component \<^verbatim>\<open>App\<close> keeps its state in fourteen \<^verbatim>\<open>useState\<close> cells and changes it in
  event handlers. The embedding is a record with one field per cell, and one function per
  handler that takes the record and returns the updated one. Two parts of the browser are
  made explicit in the same record: the \<^verbatim>\<open>localStorage\<close> entry
  \<^verbatim>\<open>mathQuizHighScores\<close> and the list of messages shown with \<^verbatim>\<open>alert\<close>.

  An \<^verbatim>\<open>async\<close> handler is split at its \<^verbatim>\<open>await\<close>: the part that runs inside the click,
  and the part that runs when the promise settles. Between the two any other event can
  happen, which is what the event loop allows.
\<close>

subsection \<open>Strings\<close>

text \<open>
  A JavaScript string is modelled as a \<^typ>\<open>string\<close>, each character read as the code unit
  of the same number (U+0000 to U+00FF). \<^verbatim>\<open>String.prototype.trim\<close> removes the WhiteSpace
  and LineTerminator code points at both ends; below U+0100 these are TAB, LF, VT, FF,
  CR, SPACE and NO-BREAK SPACE. \<^verbatim>\<open>toLowerCase\<close> maps A to Z, and the Latin-1 capitals
  U+00C0 to U+00DE except the multiplication sign U+00D7, to the code unit 32 higher.
\<close>

definition isWhiteSpace :: "char \<Rightarrow> bool" where
  "isWhiteSpace c \<longleftrightarrow> of_char c \<in> {9, 10, 11, 12, 13, 32, 160 :: nat}"

definition trim :: "string \<Rightarrow> string" where
  "trim s = rev (dropWhile isWhiteSpace (rev (dropWhile isWhiteSpace s)))"

definition toLowerCase_char :: "char \<Rightarrow> char" where
  "toLowerCase_char c =
     (let n = of_char c :: nat in
      if (65 \<le> n \<and> n \<le> 90) \<or> (192 \<le> n \<and> n \<le> 222 \<and> n \<noteq> 215)
      then char_of (n + 32) else c)"

definition toLowerCase :: "string \<Rightarrow> string" where
  "toLowerCase s = map toLowerCase_char s"

subsection \<open>Types (lines 20 to 52)\<close>

datatype QuizState = Idle | Loading | Active | Feedback | Finished

datatype Category = Arithmetic | Geometry | Algebra | Mixed

datatype Difficulty = Easy | Medium | Hard

record Question =
  question :: string
  answer :: string

text \<open>
  The number fields hold integers: \<^verbatim>\<open>score\<close> is a counter and \<^verbatim>\<open>date\<close> is
  \<^verbatim>\<open>Date.now()\<close>, milliseconds since the epoch.
\<close>

record HighScore =
  score :: int
  category :: Category
  difficulty :: Difficulty
  date :: int

text \<open>The object \<^verbatim>\<open>{ message, correct }\<close> of the \<^verbatim>\<open>feedback\<close> cell.\<close>

record Verdict =
  message :: string
  correct :: bool

text \<open>
  The cells of \<^verbatim>\<open>App\<close> in the order of lines 39 to 52, then the storage entry
  (\<^term>\<open>None\<close> when \<^verbatim>\<open>getItem\<close> returns \<^verbatim>\<open>null\<close>) and the alerts shown so far.
\<close>

record App =
  quizState :: QuizState
  category :: "Category option"
  difficulty :: "Difficulty option"
  questions :: "Question list"
  currentQuestionIndex :: nat
  userAnswer :: string
  feedback :: "Verdict option"
  score :: int
  hintCoins :: int
  hint :: "string option"
  isHintLoading :: bool
  hintUsed :: bool
  highScores :: "HighScore list"
  scoreSaved :: bool
  localStorage :: "string option"
  alerts :: "string list"

text \<open>
  \<^verbatim>\<open>TypeError\<close>: a property of \<^verbatim>\<open>undefined\<close> is read, as in
  \<^verbatim>\<open>questions[currentQuestionIndex].answer\<close> with the index out of range.
  \<^verbatim>\<open>SyntaxError\<close>: \<^verbatim>\<open>JSON.parse\<close> rejects its argument.
\<close>

datatype error = TypeError | SyntaxError

text \<open>How a promise settles.\<close>

datatype 'a settled = Rejected | Fulfilled 'a

subsection \<open>resetQuiz (lines 177 to 190)\<close>

definition resetQuiz :: "App \<Rightarrow> App" where
  "resetQuiz s =
     s\<lparr>quizState := Idle, category := None, difficulty := None, questions := [],
       currentQuestionIndex := 0, userAnswer := [], feedback := None, score := 0,
       hintCoins := 3, hint := None, hintUsed := False, scoreSaved := False\<rparr>"

subsection \<open>generateQuestions (lines 65 to 118)\<close>

text \<open>
  What \<^verbatim>\<open>response.text\<close> holds, as lines 106 and 107 read it: \<^term>\<open>Unparsable\<close> when
  \<^verbatim>\<open>JSON.parse\<close> or the property read throws, \<^term>\<open>Parsed None\<close> when
  \<^verbatim>\<open>responseJson.questions\<close> is missing or \<^verbatim>\<open>null\<close>, \<^term>\<open>Parsed (Some qs)\<close> when it is
  the array \<open>qs\<close> (the shape that \<^verbatim>\<open>responseSchema\<close> asks the provider for).
\<close>

datatype response_text = Unparsable | Parsed "Question list option"

text \<open>Up to the \<^verbatim>\<open>await\<close>: lines 66 and 67. The category only enters the prompt.\<close>

definition generateQuestions :: "Category \<Rightarrow> Difficulty \<Rightarrow> App \<Rightarrow> App" where
  "generateQuestions selectedCategory selectedDifficulty s =
     s\<lparr>quizState := Loading, difficulty := Some selectedDifficulty\<rparr>"

text \<open>The \<^verbatim>\<open>catch\<close> block, lines 113 to 117.\<close>

definition generateQuestions_catch :: "App \<Rightarrow> App" where
  "generateQuestions_catch s =
     resetQuiz (s\<lparr>alerts := alerts s @
       [''Sorry, there was an error generating the quiz. Please try again.'']\<rparr>)"

text \<open>After the \<^verbatim>\<open>await\<close>: lines 106 to 117.\<close>

definition generateQuestions_settled :: "response_text settled \<Rightarrow> App \<Rightarrow> App" where
  "generateQuestions_settled r s =
     (case r of
        Rejected \<Rightarrow> generateQuestions_catch s
      | Fulfilled Unparsable \<Rightarrow> generateQuestions_catch s
      | Fulfilled (Parsed None) \<Rightarrow> generateQuestions_catch s
      | Fulfilled (Parsed (Some qs)) \<Rightarrow>
          if length qs > 0 then s\<lparr>questions := qs, quizState := Active\<rparr>
          else generateQuestions_catch s)"

subsection \<open>handleCategorySelect (lines 120 to 122)\<close>

definition handleCategorySelect :: "Category \<Rightarrow> App \<Rightarrow> App" where
  "handleCategorySelect selectedCategory s = s\<lparr>category := Some selectedCategory\<rparr>"

subsection \<open>handleGetHint (lines 124 to 145)\<close>

text \<open>
  What the handler has done when it reaches its \<^verbatim>\<open>await\<close> or leaves before it:
  returned at the guard of line 125, thrown while building the prompt of line 131, or
  sent the request with that prompt.
\<close>

datatype request = NoRequest | Threw error | Await string

definition handleGetHint :: "App \<Rightarrow> App \<times> request" where
  "handleGetHint s =
     (if hintCoins s \<le> 0 \<or> hintUsed s then (s, NoRequest)
      else
        let s' = s\<lparr>isHintLoading := True, hintUsed := True, hintCoins := hintCoins s - 1\<rparr>
        in if currentQuestionIndex s < length (questions s)
           then (s', Await (''Provide a simple, one-sentence hint for the following math problem. Do not give the answer. Problem: ''
                   @ [CHR 0x22] @ question (questions s ! currentQuestionIndex s) @ [CHR 0x22]))
           else (s', Threw TypeError))"

text \<open>After the \<^verbatim>\<open>await\<close>: lines 138 to 144, the \<^verbatim>\<open>finally\<close> block included.\<close>

definition handleGetHint_settled :: "string settled \<Rightarrow> App \<Rightarrow> App" where
  "handleGetHint_settled r s =
     (case r of
        Fulfilled text \<Rightarrow> s\<lparr>hint := Some text, isHintLoading := False\<rparr>
      | Rejected \<Rightarrow> s\<lparr>hint := Some ''Sorry, couldn't get a hint right now.'',
                       isHintLoading := False\<rparr>)"

subsection \<open>handleAnswerSubmit (lines 147 to 162)\<close>

text \<open>
  \<^verbatim>\<open>!userAnswer.trim()\<close> holds exactly when the trimmed string is empty. \<^verbatim>\<open>String(x)\<close> is
  \<open>x\<close> on a string.
\<close>

definition handleAnswerSubmit :: "App \<Rightarrow> error + App" where
  "handleAnswerSubmit s =
     (if trim (userAnswer s) = [] then Inr s
      else if \<not> currentQuestionIndex s < length (questions s) then Inl TypeError
      else
        let correctAnswer = answer (questions s ! currentQuestionIndex s);
            isCorrect = (toLowerCase (trim (userAnswer s)) = toLowerCase (trim correctAnswer))
        in Inr ((if isCorrect
                 then s\<lparr>score := score s + 1,
                        feedback := Some \<lparr>message = ''Correct!'', correct = True\<rparr>\<rparr>
                 else s\<lparr>feedback := Some \<lparr>message = ''Incorrect! The answer is '' @ correctAnswer,
                                           correct = False\<rparr>\<rparr>)
                \<lparr>quizState := Feedback\<rparr>))"

subsection \<open>handleNextQuestion (lines 164 to 175)\<close>

definition handleNextQuestion :: "App \<Rightarrow> App" where
  "handleNextQuestion s =
     (let s' = s\<lparr>feedback := None, userAnswer := [], hint := None, hintUsed := False\<rparr>
      in if int (currentQuestionIndex s) < int (length (questions s)) - 1
         then s'\<lparr>currentQuestionIndex := currentQuestionIndex s + 1, quizState := Active\<rparr>
         else s'\<lparr>quizState := Finished\<rparr>)"

subsection \<open>handleSaveScore (lines 192 to 202)\<close>

text \<open>
  The comparison function of line 196. \<^verbatim>\<open>x || y\<close> is \<open>x\<close> unless \<open>x\<close> is zero.
\<close>

definition compare_scores :: "HighScore \<Rightarrow> HighScore \<Rightarrow> int" where
  "compare_scores a b =
     (if HighScore.score b - HighScore.score a \<noteq> 0
      then HighScore.score b - HighScore.score a
      else date b - date a)"

text \<open>
  \<^verbatim>\<open>Array.prototype.sort\<close> is stable: with a comparison function it returns the elements
  in an order where \<open>a\<close> comes before \<open>b\<close> when the function is negative on \<open>(a, b)\<close>, and in
  their original order when it is zero. Insertion from the right, each element put in
  front of the first one it does not have to follow, computes that order.
\<close>

fun insert_sorted :: "('a \<Rightarrow> 'a \<Rightarrow> int) \<Rightarrow> 'a \<Rightarrow> 'a list \<Rightarrow> 'a list" where
  "insert_sorted compareFn x [] = [x]"
| "insert_sorted compareFn x (y # ys) =
     (if compareFn x y \<le> 0 then x # y # ys else y # insert_sorted compareFn x ys)"

definition sort_js :: "('a \<Rightarrow> 'a \<Rightarrow> int) \<Rightarrow> 'a list \<Rightarrow> 'a list" where
  "sort_js compareFn xs = foldr (insert_sorted compareFn) xs []"

text \<open>
  \<^verbatim>\<open>JSON.stringify\<close> on an array of \<^verbatim>\<open>HighScore\<close> objects. The keys come in the order of
  the object literal of line 194; an integer below \<open>10\<^sup>2\<^sup>1\<close> in absolute value is written
  in decimal digits, and the scores and dates are far below.
\<close>

definition digit_char :: "nat \<Rightarrow> char" where
  "digit_char d = ''0123456789'' ! d"

fun show_nat :: "nat \<Rightarrow> string" where
  "show_nat n =
     (if n < 10 then [digit_char n] else show_nat (n div 10) @ [digit_char (n mod 10)])"

declare show_nat.simps [simp del]

definition show_int :: "int \<Rightarrow> string" where
  "show_int i = (if i < 0 then CHR ''-'' # show_nat (nat (- i)) else show_nat (nat i))"

fun Category_string :: "Category \<Rightarrow> string" where
  "Category_string Arithmetic = ''Arithmetic''"
| "Category_string Geometry = ''Geometry''"
| "Category_string Algebra = ''Algebra''"
| "Category_string Mixed = ''Mixed''"

fun Difficulty_string :: "Difficulty \<Rightarrow> string" where
  "Difficulty_string Easy = ''Easy''"
| "Difficulty_string Medium = ''Medium''"
| "Difficulty_string Hard = ''Hard''"

definition stringify_HighScore :: "HighScore \<Rightarrow> string" where
  \<open>stringify_HighScore h =
     ''{"score":'' @ show_int (HighScore.score h) @
     '',"category":"'' @ Category_string (HighScore.category h) @
     ''","difficulty":"'' @ Difficulty_string (HighScore.difficulty h) @
     ''","date":'' @ show_int (date h) @ ''}''\<close>

fun join_comma :: "string list \<Rightarrow> string" where
  "join_comma [] = []"
| "join_comma [x] = x"
| "join_comma (x # y # ys) = x @ '','' @ join_comma (y # ys)"

definition JSON_stringify :: "HighScore list \<Rightarrow> string" where
  "JSON_stringify hs = ''['' @ join_comma (map stringify_HighScore hs) @ '']''"

text \<open>
  The handler. \<open>now\<close> is the value of \<^verbatim>\<open>Date.now()\<close>. \<^verbatim>\<open>slice(0, 10)\<close> is
  \<^term>\<open>take 10\<close>. \<^verbatim>\<open>setItem\<close> is taken to store its argument (the quota of the storage
  area is not modelled).
\<close>

definition handleSaveScore :: "int \<Rightarrow> App \<Rightarrow> App" where
  "handleSaveScore now s =
     (case category s of
        None \<Rightarrow> s
      | Some c \<Rightarrow>
         (case difficulty s of
            None \<Rightarrow> s
          | Some d \<Rightarrow>
             let newScore = \<lparr>HighScore.score = score s, category = c, difficulty = d, date = now\<rparr>;
                 updatedScores = take 10 (sort_js compare_scores (highScores s @ [newScore]))
             in s\<lparr>highScores := updatedScores,
                  localStorage := Some (JSON_stringify updatedScores),
                  scoreSaved := True\<rparr>))"

subsection \<open>handleClearScores (lines 204 to 207)\<close>

definition handleClearScores :: "App \<Rightarrow> App" where
  "handleClearScores s = s\<lparr>highScores := [], localStorage := None\<rparr>"

subsection \<open>The events that renderContent lets through (lines 209 to 333)\<close>

text \<open>
  A handler runs only when its control is on the screen and enabled. \<^verbatim>\<open>renderContent\<close>
  decides that from the state: the category buttons and the clear button in \<^verbatim>\<open>idle\<close>
  without a category, the difficulty and back buttons in \<^verbatim>\<open>idle\<close> with one, nothing
  while \<^verbatim>\<open>loading\<close>, the answer form and the hint button in \<^verbatim>\<open>active\<close>, the next
  button in \<^verbatim>\<open>feedback\<close>, the save and play-again buttons in \<^verbatim>\<open>finished\<close>. The hint
  button is disabled by line 252 and the save button by line 280; a disabled button
  sends no click. React renders again after each click, before the next one is handled,
  so every handler reads the state its predecessor left.

  The two settling events are the promises of the two requests: the question request
  is pending exactly while the state is \<^verbatim>\<open>loading\<close>, the hint request while
  \<^verbatim>\<open>isHintLoading\<close> is set. An exception that leaves a click handler is reported by
  React and changes nothing further.
\<close>

datatype event =
    CategoryClick Category
  | BackClick
  | DifficultyClick Difficulty
  | QuestionsSettled "response_text settled"
  | AnswerChange string
  | HintClick
  | HintSettled "string settled"
  | SubmitForm
  | NextClick
  | SaveClick int
  | PlayAgainClick
  | ClearClick

fun step :: "event \<Rightarrow> App \<Rightarrow> App" where
  "step (CategoryClick c) s =
     (if quizState s = Idle \<and> category s = None then handleCategorySelect c s else s)"
| "step BackClick s =
     (if quizState s = Idle \<and> category s \<noteq> None then s\<lparr>category := None\<rparr> else s)"
| "step (DifficultyClick d) s =
     (case category s of
        Some c \<Rightarrow> if quizState s = Idle then generateQuestions c d s else s
      | None \<Rightarrow> s)"
| "step (QuestionsSettled r) s =
     (if quizState s = Loading then generateQuestions_settled r s else s)"
| "step (AnswerChange v) s =
     (if quizState s = Active then s\<lparr>userAnswer := v\<rparr> else s)"
| "step HintClick s =
     (if quizState s = Active \<and> \<not> (hintCoins s \<le> 0 \<or> hintUsed s \<or> isHintLoading s)
      then fst (handleGetHint s) else s)"
| "step (HintSettled r) s =
     (if isHintLoading s then handleGetHint_settled r s else s)"
| "step SubmitForm s =
     (if quizState s = Active
      then (case handleAnswerSubmit s of Inr s' \<Rightarrow> s' | Inl e \<Rightarrow> s)
      else s)"
| "step NextClick s =
     (if quizState s = Feedback then handleNextQuestion s else s)"
| "step (SaveClick now) s =
     (if quizState s = Finished \<and> \<not> scoreSaved s then handleSaveScore now s else s)"
| "step PlayAgainClick s =
     (if quizState s = Finished then resetQuiz s else s)"
| "step ClearClick s =
     (if quizState s = Idle \<and> category s = None \<and> length (highScores s) > 0
      then handleClearScores s else s)"

text \<open>
  The state after mounting: the initial values of lines 39 to 52, with the table \<open>hs\<close>
  that the load effect has installed and the storage entry \<open>ls\<close>.
\<close>

definition App_initial :: "HighScore list \<Rightarrow> string option \<Rightarrow> App" where
  "App_initial hs ls =
     \<lparr>quizState = Idle, category = None, difficulty = None, questions = [],
      currentQuestionIndex = 0, userAnswer = [], feedback = None, score = 0,
      hintCoins = 3, hint = None, isHintLoading = False, hintUsed = False,
      highScores = hs, scoreSaved = False, localStorage = ls, alerts = []\<rparr>"

text \<open>A session: the events in the order they happen.\<close>

fun run :: "event list \<Rightarrow> App \<Rightarrow> App" where
  "run [] s = s"
| "run (e # es) s = run es (step e s)"

subsection \<open>JSON.parse\<close>

text \<open>
  The load effect hands the stored text to \<^verbatim>\<open>JSON.parse\<close> and installs whatever comes
  back, so the values of JSON are modelled as they are, not as \<^typ>\<open>HighScore list\<close>. A
  number is kept as the exact rational its literal denotes (the rounding to a double is
  not modelled), a string as its code units, an object as its own properties in the
  order in which JavaScript enumerates them.
\<close>

datatype jsval =
    JNull
  | JBool bool
  | JNumber rat
  | JString "nat list"
  | JArray "jsval list"
  | JObject "(nat list \<times> jsval) list"

text \<open>The code units of a string literal.\<close>

definition units :: "string \<Rightarrow> nat list" where
  "units s = map of_char s"

text \<open>
  The text is read in two passes, as the grammar of JSON has two levels. The first pass
  cuts it into tokens, one character at a time; the mode says what the characters read
  so far belong to: nothing, a string (with the code units read, latest first), an
  escape after a backslash, the four hex digits of a Unicode escape, a number or one of the
  words \<^verbatim>\<open>true\<close>, \<^verbatim>\<open>false\<close>, \<^verbatim>\<open>null\<close>. \<^term>\<open>None\<close> is the \<^verbatim>\<open>SyntaxError\<close>.
\<close>

datatype token = LBrace | RBrace | LBracket | RBracket | Colon | Comma | Literal jsval

datatype lexmode =
    Top
  | InString "nat list"
  | InEscape "nat list"
  | InUnicode "nat list" "nat list"
  | InNumber string
  | InWord string

text \<open>The white space of JSON is TAB, LF, CR and SPACE only.\<close>

definition is_json_ws :: "char \<Rightarrow> bool" where
  "is_json_ws c \<longleftrightarrow> of_char c \<in> {9, 10, 13, 32 :: nat}"

definition is_digit :: "char \<Rightarrow> bool" where
  "is_digit c \<longleftrightarrow> 48 \<le> (of_char c :: nat) \<and> (of_char c :: nat) \<le> 57"

definition is_number_char :: "char \<Rightarrow> bool" where
  "is_number_char c \<longleftrightarrow> is_digit c \<or> c \<in> set ''+-.eE''"

definition is_word_char :: "char \<Rightarrow> bool" where
  "is_word_char c \<longleftrightarrow> 97 \<le> (of_char c :: nat) \<and> (of_char c :: nat) \<le> 122"

definition punctuator :: "char \<Rightarrow> token option" where
  "punctuator c =
     (if c = CHR ''{'' then Some LBrace else if c = CHR ''}'' then Some RBrace
      else if c = CHR ''['' then Some LBracket else if c = CHR '']'' then Some RBracket
      else if c = CHR '':'' then Some Colon else if c = CHR '','' then Some Comma
      else None)"

definition escape :: "char \<Rightarrow> nat option" where
  "escape c =
     (if c = CHR 0x22 then Some 34 else if c = CHR 0x5C then Some 92
      else if c = CHR ''/'' then Some 47 else if c = CHR ''b'' then Some 8
      else if c = CHR ''f'' then Some 12 else if c = CHR ''n'' then Some 10
      else if c = CHR ''r'' then Some 13 else if c = CHR ''t'' then Some 9
      else None)"

definition hex_value :: "char \<Rightarrow> nat option" where
  "hex_value c =
     (let n = of_char c :: nat in
      if 48 \<le> n \<and> n \<le> 57 then Some (n - 48)
      else if 65 \<le> n \<and> n \<le> 70 then Some (n - 55)
      else if 97 \<le> n \<and> n \<le> 102 then Some (n - 87)
      else None)"

text \<open>
  A number is an optional minus sign, then \<^verbatim>\<open>0\<close> or digits without a leading \<^verbatim>\<open>0\<close>, then
  optionally a point and at least one digit, then optionally \<^verbatim>\<open>e\<close> or \<^verbatim>\<open>E\<close>, a sign and
  at least one digit.
\<close>

definition digits_value :: "string \<Rightarrow> nat" where
  "digits_value ds = foldl (\<lambda>n c. 10 * n + (of_char c - 48)) 0 ds"

definition exponent_value :: "string \<Rightarrow> int option" where
  "exponent_value es =
     (case es of
        [] \<Rightarrow> None
      | c # cs \<Rightarrow>
          let ds = (if c = CHR ''+'' \<or> c = CHR ''-'' then cs else es)
          in if ds \<noteq> [] \<and> list_all is_digit ds
             then Some (if c = CHR ''-'' then - int (digits_value ds) else int (digits_value ds))
             else None)"

definition number_value :: "string \<Rightarrow> rat option" where
  "number_value buf =
     (let negative = (buf \<noteq> [] \<and> hd buf = CHR ''-'');
          r0 = (if negative then tl buf else buf);
          ds = takeWhile is_digit r0;
          r1 = dropWhile is_digit r0;
          has_frac = (r1 \<noteq> [] \<and> hd r1 = CHR ''.'');
          fs = (if has_frac then takeWhile is_digit (tl r1) else []);
          r2 = (if has_frac then dropWhile is_digit (tl r1) else r1);
          has_exp = (r2 \<noteq> [] \<and> (hd r2 = CHR ''e'' \<or> hd r2 = CHR ''E''));
          ex = (if has_exp then exponent_value (tl r2) else Some 0)
      in if ds = [] \<or> (length ds > 1 \<and> hd ds = CHR ''0'') then None
         else if has_frac \<and> fs = [] then None
         else if \<not> has_exp \<and> r2 \<noteq> [] then None
         else (case ex of
                 None \<Rightarrow> None
               | Some e \<Rightarrow>
                   let m = of_nat (digits_value (ds @ fs)) / 10 ^ length fs;
                       v = (if 0 \<le> e then m * 10 ^ nat e else m / 10 ^ nat (- e))
                   in Some (if negative then - v else v)))"

definition word_value :: "string \<Rightarrow> jsval option" where
  "word_value w =
     (if w = ''true'' then Some (JBool True) else if w = ''false'' then Some (JBool False)
      else if w = ''null'' then Some JNull else None)"

text \<open>
  A number or a word ends at the first character that cannot continue it. Only white
  space, a comma or a closing bracket or brace may stand there.
\<close>

definition emit :: "token \<Rightarrow> token list option \<Rightarrow> token list option" where
  "emit t r = map_option ((#) t) r"

definition emit_before :: "token \<Rightarrow> char \<Rightarrow> token list option \<Rightarrow> token list option" where
  "emit_before t c r =
     (if is_json_ws c then emit t r
      else if c = CHR '','' then emit t (emit Comma r)
      else if c = CHR '']'' then emit t (emit RBracket r)
      else if c = CHR ''}'' then emit t (emit RBrace r)
      else None)"

fun lex :: "lexmode \<Rightarrow> string \<Rightarrow> token list option" where
  "lex Top [] = Some []"
| "lex (InNumber buf) [] = map_option (\<lambda>v. [Literal (JNumber v)]) (number_value buf)"
| "lex (InWord buf) [] = map_option (\<lambda>v. [Literal v]) (word_value buf)"
| "lex (InString acc) [] = None"
| "lex (InEscape acc) [] = None"
| "lex (InUnicode acc hs) [] = None"
| "lex Top (c # cs) =
     (if is_json_ws c then lex Top cs
      else case punctuator c of
        Some t \<Rightarrow> emit t (lex Top cs)
      | None \<Rightarrow>
          if c = CHR 0x22 then lex (InString []) cs
          else if c = CHR ''-'' \<or> is_digit c then lex (InNumber [c]) cs
          else if is_word_char c then lex (InWord [c]) cs
          else None)"
| "lex (InString acc) (c # cs) =
     (if c = CHR 0x22 then emit (Literal (JString (rev acc))) (lex Top cs)
      else if c = CHR 0x5C then lex (InEscape acc) cs
      else if (of_char c :: nat) < 32 then None
      else lex (InString (of_char c # acc)) cs)"
| "lex (InEscape acc) (c # cs) =
     (if c = CHR ''u'' then lex (InUnicode acc []) cs
      else case escape c of
        Some u \<Rightarrow> lex (InString (u # acc)) cs
      | None \<Rightarrow> None)"
| "lex (InUnicode acc hs) (c # cs) =
     (case hex_value c of
        None \<Rightarrow> None
      | Some h \<Rightarrow>
          if length hs = 3
          then lex (InString (foldl (\<lambda>n d. 16 * n + d) 0 (hs @ [h]) # acc)) cs
          else lex (InUnicode acc (hs @ [h])) cs)"
| "lex (InNumber buf) (c # cs) =
     (if is_number_char c then lex (InNumber (buf @ [c])) cs
      else case number_value buf of
        None \<Rightarrow> None
      | Some v \<Rightarrow> emit_before (Literal (JNumber v)) c (lex Top cs))"
| "lex (InWord buf) (c # cs) =
     (if is_word_char c then lex (InWord (buf @ [c])) cs
      else case word_value buf of
        None \<Rightarrow> None
      | Some v \<Rightarrow> emit_before (Literal v) c (lex Top cs))"

text \<open>
  The second pass builds the value from the tokens with a stack of the arrays and
  objects that are still open: the elements or members read so far, latest first, and
  for an object the key that waits for its value. The phase says which tokens may come
  next.
\<close>

datatype frame =
    ArrayFrame "jsval list"
  | ObjectFrame "(nat list \<times> jsval) list" "nat list"

datatype phase = Value | ValueOrClose | KeyOrClose | Key | AfterKey | CommaOrClose | Done jsval

text \<open>A finished value goes into the innermost open array or object, or is the result.\<close>

fun deliver :: "jsval \<Rightarrow> frame list \<Rightarrow> phase \<times> frame list" where
  "deliver v [] = (Done v, [])"
| "deliver v (ArrayFrame xs # st) = (CommaOrClose, ArrayFrame (v # xs) # st)"
| "deliver v (ObjectFrame ms k # st) = (CommaOrClose, ObjectFrame ((k, v) # ms) k # st)"

fun open_value :: "token \<Rightarrow> frame list \<Rightarrow> (phase \<times> frame list) option" where
  "open_value (Literal v) st = Some (deliver v st)"
| "open_value LBracket st = Some (ValueOrClose, ArrayFrame [] # st)"
| "open_value LBrace st = Some (KeyOrClose, ObjectFrame [] [] # st)"
| "open_value t st = None"

fun take_key :: "token \<Rightarrow> frame list \<Rightarrow> (phase \<times> frame list) option" where
  "take_key (Literal (JString k)) (ObjectFrame ms k' # st) = Some (AfterKey, ObjectFrame ms k # st)"
| "take_key t st = None"

fun close_array :: "frame list \<Rightarrow> (phase \<times> frame list) option" where
  "close_array (ArrayFrame xs # st) = Some (deliver (JArray (rev xs)) st)"
| "close_array st = None"

text \<open>
  \<^verbatim>\<open>JSON.parse\<close> creates the properties of an object one member after the other, in the
  order of the text. A key that is there already keeps its place and takes the new
  value. The keys of an object are enumerated with the array indices first, in
  ascending order, then the other keys in the order of their creation; an array index
  is the decimal numeral, without a leading zero, of a number below \<open>2\<^sup>3\<^sup>2 - 1\<close>.
\<close>

definition index_value :: "nat list \<Rightarrow> nat" where
  "index_value k = foldl (\<lambda>n d. 10 * n + (d - 48)) 0 k"

definition is_array_index :: "nat list \<Rightarrow> bool" where
  "is_array_index k \<longleftrightarrow>
     k \<noteq> [] \<and> list_all (\<lambda>d. 48 \<le> d \<and> d \<le> 57) k
     \<and> (if hd k = 48 then length k = 1 else True)
     \<and> index_value k < 2 ^ 32 - 1"

definition comes_before :: "nat list \<Rightarrow> nat list \<times> jsval \<Rightarrow> bool" where
  "comes_before k m \<longleftrightarrow> is_array_index (fst m) \<and> index_value (fst m) < index_value k"

definition define_property ::
  "(nat list \<times> jsval) list \<Rightarrow> nat list \<times> jsval \<Rightarrow> (nat list \<times> jsval) list" where
  "define_property ms m =
     (if fst m \<in> set (map fst ms)
      then map (\<lambda>m'. if fst m' = fst m then m else m') ms
      else if is_array_index (fst m)
      then takeWhile (comes_before (fst m)) ms @ [m] @ dropWhile (comes_before (fst m)) ms
      else ms @ [m])"

fun close_object :: "frame list \<Rightarrow> (phase \<times> frame list) option" where
  "close_object (ObjectFrame ms k # st) =
     Some (deliver (JObject (foldl define_property [] (rev ms))) st)"
| "close_object st = None"

fun parse_token :: "token \<Rightarrow> phase \<times> frame list \<Rightarrow> (phase \<times> frame list) option" where
  "parse_token t (Value, st) = open_value t st"
| "parse_token t (ValueOrClose, st) = (if t = RBracket then close_array st else open_value t st)"
| "parse_token t (KeyOrClose, st) = (if t = RBrace then close_object st else take_key t st)"
| "parse_token t (Key, st) = take_key t st"
| "parse_token t (AfterKey, st) = (if t = Colon then Some (Value, st) else None)"
| "parse_token t (CommaOrClose, st) =
     (case st of
        [] \<Rightarrow> None
      | ArrayFrame xs # st' \<Rightarrow>
          if t = Comma then Some (Value, st) else if t = RBracket then close_array st else None
      | ObjectFrame ms k # st' \<Rightarrow>
          if t = Comma then Some (Key, st) else if t = RBrace then close_object st else None)"
| "parse_token t (Done v, st) = None"

fun parse_tokens :: "token list \<Rightarrow> phase \<times> frame list \<Rightarrow> jsval option" where
  "parse_tokens [] (ph, st) = (case ph of Done v \<Rightarrow> Some v | _ \<Rightarrow> None)"
| "parse_tokens (t # ts) p =
     (case parse_token t p of None \<Rightarrow> None | Some p' \<Rightarrow> parse_tokens ts p')"

text \<open>The text must be exactly one value, with white space around it at most.\<close>

definition JSON_parse :: "string \<Rightarrow> error + jsval" where
  "JSON_parse text =
     (case lex Top text of
        None \<Rightarrow> Inl SyntaxError
      | Some ts \<Rightarrow>
          (case parse_tokens ts (Value, []) of
             None \<Rightarrow> Inl SyntaxError
           | Some v \<Rightarrow> Inr v))"

subsection \<open>The load effect (lines 54 to 63)\<close>

text \<open>
  The body of the \<^verbatim>\<open>try\<close> block: an error, or the argument of \<^verbatim>\<open>setHighScores\<close> when it
  is called. \<^verbatim>\<open>if (savedScores)\<close> fails on \<^verbatim>\<open>null\<close> and on the empty string.
\<close>

definition load_try :: "string option \<Rightarrow> error + jsval option" where
  "load_try ls =
     (case ls of
        None \<Rightarrow> Inr None
      | Some savedScores \<Rightarrow>
          if savedScores = [] then Inr None
          else (case JSON_parse savedScores of
                  Inl e \<Rightarrow> Inl e
                | Inr v \<Rightarrow> Inr (Some v)))"

text \<open>
  The effect with its \<^verbatim>\<open>catch\<close>: the value of the \<^verbatim>\<open>highScores\<close> cell after mounting.
  The cell starts as the empty array (line 51) and keeps it when \<^verbatim>\<open>setHighScores\<close>
  is not called; the \<^verbatim>\<open>catch\<close> block only logs.
\<close>

definition load_highScores :: "string option \<Rightarrow> error + jsval" where
  "load_highScores ls =
     (case load_try ls of
        Inl e \<Rightarrow> Inr (JArray [])
      | Inr None \<Rightarrow> Inr (JArray [])
      | Inr (Some v) \<Rightarrow> Inr v)"

subsection \<open>Predicates used in the properties\<close>

text \<open>
  The two verdicts of \<^const>\<open>handleAnswerSubmit\<close>: the state it returns on a correct
  answer (lines 156, 157 and 161) and on an incorrect one (lines 159 and 161).
\<close>

definition judged_correct :: "App \<Rightarrow> bool" where
  "judged_correct s \<longleftrightarrow>
     handleAnswerSubmit s =
       Inr (s\<lparr>score := score s + 1,
              feedback := Some \<lparr>message = ''Correct!'', correct = True\<rparr>,
              quizState := Feedback\<rparr>)"

definition judged_incorrect :: "App \<Rightarrow> bool" where
  "judged_incorrect s \<longleftrightarrow>
     handleAnswerSubmit s =
       Inr (s\<lparr>feedback := Some \<lparr>message = ''Incorrect! The answer is '' @
                                    answer (questions s ! currentQuestionIndex s),
                                  correct = False\<rparr>,
              quizState := Feedback\<rparr>)"

text \<open>The order of the high-score table: higher score first, later date first on a tie.\<close>

definition ranks_before :: "HighScore \<Rightarrow> HighScore \<Rightarrow> bool" where
  "ranks_before a b \<longleftrightarrow>
     HighScore.score b < HighScore.score a
     \<or> (HighScore.score b = HighScore.score a \<and> date b \<le> date a)"

text \<open>An event that does not deliver more than \<open>n\<close> questions.\<close>

fun batch_within :: "nat \<Rightarrow> event \<Rightarrow> bool" where
  "batch_within n (QuestionsSettled (Fulfilled (Parsed (Some qs)))) = (length qs \<le> n)"
| "batch_within n e = True"

text \<open>
  What every state of a session satisfies: the hint coins stay between 0 and 3; before
  the questions arrive nothing has been counted; once they are there, the index is in
  range, category and difficulty are set, and the score is at most the number of
  questions answered.
\<close>

definition session_inv :: "App \<Rightarrow> bool" where
  "session_inv s \<longleftrightarrow>
     0 \<le> hintCoins s \<and> hintCoins s \<le> 3 \<and> 0 \<le> score s \<and>
     (case quizState s of
        Idle \<Rightarrow> score s = 0 \<and> currentQuestionIndex s = 0 \<and> hintCoins s = 3
                \<and> questions s = []
      | Loading \<Rightarrow> score s = 0 \<and> currentQuestionIndex s = 0 \<and> hintCoins s = 3
                   \<and> questions s = [] \<and> category s \<noteq> None \<and> difficulty s \<noteq> None
      | Active \<Rightarrow> currentQuestionIndex s < length (questions s)
                  \<and> score s \<le> int (currentQuestionIndex s)
                  \<and> category s \<noteq> None \<and> difficulty s \<noteq> None
      | Feedback \<Rightarrow> currentQuestionIndex s < length (questions s)
                  \<and> score s \<le> int (currentQuestionIndex s) + 1
                  \<and> category s \<noteq> None \<and> difficulty s \<noteq> None
      | Finished \<Rightarrow> currentQuestionIndex s < length (questions s)
                  \<and> score s \<le> int (currentQuestionIndex s) + 1
                  \<and> category s \<noteq> None \<and> difficulty s \<noteq> None)"

subsection \<open>Example sessions\<close>

text \<open>
  A batch of \<open>n\<close> questions that all have the answer 2, the events of answering one
  question after another, and a whole quiz up to the results screen.
\<close>

definition batch :: "nat \<Rightarrow> Question list" where
  "batch n = replicate n \<lparr>question = ''1 + 1'', answer = ''2''\<rparr>"

definition play :: "string list \<Rightarrow> event list" where
  "play answers = concat (map (\<lambda>a. [AnswerChange a, SubmitForm, NextClick]) answers)"

definition quiz :: "nat \<Rightarrow> string list \<Rightarrow> event list" where
  "quiz n answers =
     [CategoryClick Arithmetic, DifficultyClick Easy,
      QuestionsSettled (Fulfilled (Parsed (Some (batch n))))] @ play answers"

text \<open>The first question of such a quiz on the screen, with \<open>a\<close> typed into the form.\<close>

definition asking :: "string \<Rightarrow> string \<Rightarrow> App" where
  "asking stored a =
     (App_initial [] None)\<lparr>quizState := Active, category := Some Arithmetic,
       difficulty := Some Easy, questions := [\<lparr>question = ''3 + 4'', answer = stored\<rparr>],
       userAnswer := a\<rparr>"

section \<open>Properties\<close>

lemmas handler_defs =
  handleCategorySelect_def generateQuestions_def generateQuestions_settled_def
  generateQuestions_catch_def resetQuiz_def handleGetHint_def handleGetHint_settled_def
  handleAnswerSubmit_def handleNextQuestion_def handleSaveScore_def handleClearScores_def
  Let_def

lemmas string_defs = trim_def isWhiteSpace_def toLowerCase_def toLowerCase_char_def

lemmas example_defs = App_initial_def asking_def batch_def play_def quiz_def

subsection \<open>Answer submission\<close>

text \<open>
  C10. Submitting an answer whose trimmed form is empty changes nothing: the handler
  returns at line 149 with the state as it was, so the state stays \<^verbatim>\<open>active\<close> and score,
  feedback, index, typed answer and hint fields are the same. The same holds for the
  submit event of the form.
\<close>

theorem blank_submit_noop:
  "trim (userAnswer s) = [] \<Longrightarrow> handleAnswerSubmit s = Inr s \<and> step SubmitForm s = s"
  by (simp add: handleAnswerSubmit_def)

theorem blank_submit_noop_witness:
  "trim (userAnswer (asking ''7'' ''  '')) = []
   \<and> quizState (asking ''7'' ''  '') = Active
   \<and> handleAnswerSubmit (asking ''7'' ''  '') = Inr (asking ''7'' ''  '')
   \<and> step SubmitForm (asking ''7'' ''  '') = asking ''7'' ''  ''"
proof -
  have h: "trim (userAnswer (asking ''7'' ''  '')) = []"
    by (simp add: example_defs string_defs)
  show ?thesis
    using h blank_submit_noop [OF h] by (simp add: example_defs)
qed

text \<open>
  C1, as the code has it. When the trimmed input is not empty, the answer is judged
  correct exactly when the input and the stored answer are equal as strings after
  \<^verbatim>\<open>trim\<close> and \<^verbatim>\<open>toLowerCase\<close>, and judged incorrect exactly when they are not; nothing is
  parsed as a number. So \<^verbatim>\<open>"7 "\<close> against \<^verbatim>\<open>"7"\<close> is correct and \<^verbatim>\<open>"7.0"\<close> against
  \<^verbatim>\<open>"7"\<close> is incorrect. A blank input is not judged at all (C10).
\<close>

theorem answer_check:
  assumes "currentQuestionIndex s < length (questions s)" and "trim (userAnswer s) \<noteq> []"
  shows "(judged_correct s \<longleftrightarrow>
            toLowerCase (trim (userAnswer s)) =
            toLowerCase (trim (answer (questions s ! currentQuestionIndex s))))
       \<and> (judged_incorrect s \<longleftrightarrow>
            toLowerCase (trim (userAnswer s)) \<noteq>
            toLowerCase (trim (answer (questions s ! currentQuestionIndex s))))"
proof -
  let ?a = "answer (questions s ! currentQuestionIndex s)"
  let ?same = "toLowerCase (trim (userAnswer s)) = toLowerCase (trim ?a)"
  have c: "judged_correct s \<longleftrightarrow> ?same"
  proof (cases ?same)
    case True
    with assms show ?thesis by (simp add: judged_correct_def handleAnswerSubmit_def)
  next
    case False
    have "handleAnswerSubmit s \<noteq>
        Inr (s\<lparr>score := score s + 1,
               feedback := Some \<lparr>message = ''Correct!'', correct = True\<rparr>,
               quizState := Feedback\<rparr>)"
      using assms False
      by (auto simp add: handleAnswerSubmit_def dest: arg_cong [where f = score])
    with False show ?thesis by (simp add: judged_correct_def)
  qed
  have i: "judged_incorrect s \<longleftrightarrow> \<not> ?same"
  proof (cases ?same)
    case False
    with assms show ?thesis by (simp add: judged_incorrect_def handleAnswerSubmit_def)
  next
    case True
    have "handleAnswerSubmit s \<noteq>
        Inr (s\<lparr>feedback := Some \<lparr>message = ''Incorrect! The answer is '' @ ?a,
                                   correct = False\<rparr>,
               quizState := Feedback\<rparr>)"
      using assms True
      by (auto simp add: handleAnswerSubmit_def dest: arg_cong [where f = score])
    with True show ?thesis by (simp add: judged_incorrect_def)
  qed
  from c i show ?thesis by simp
qed

theorem answer_check_witness:
  "currentQuestionIndex (asking ''7'' ''7 '') < length (questions (asking ''7'' ''7 ''))
   \<and> trim (userAnswer (asking ''7'' ''7 '')) \<noteq> []
   \<and> judged_correct (asking ''7'' ''7 '')
   \<and> currentQuestionIndex (asking ''7'' ''7.0'') < length (questions (asking ''7'' ''7.0''))
   \<and> trim (userAnswer (asking ''7'' ''7.0'')) \<noteq> []
   \<and> judged_incorrect (asking ''7'' ''7.0'')"
proof -
  have a: "currentQuestionIndex (asking ''7'' ''7 '') < length (questions (asking ''7'' ''7 ''))"
    and b: "trim (userAnswer (asking ''7'' ''7 '')) \<noteq> []"
    and c: "currentQuestionIndex (asking ''7'' ''7.0'') < length (questions (asking ''7'' ''7.0''))"
    and d: "trim (userAnswer (asking ''7'' ''7.0'')) \<noteq> []"
    by (simp_all add: example_defs string_defs)
  show ?thesis
    using a b c d answer_check [OF a b] answer_check [OF c d]
    by (simp add: example_defs string_defs)
qed

text \<open>
  Without the restriction to a non-blank input the equivalence fails: a blank input and
  a blank stored answer are equal after trimming and lower-casing, and the handler
  gives no verdict.
\<close>

theorem answer_check_counterexample:
  "\<not> (judged_correct (asking '' '' '' '')
       \<longleftrightarrow> toLowerCase (trim '' '') = toLowerCase (trim '' ''))"
  by (simp add: judged_correct_def handleAnswerSubmit_def example_defs string_defs)

subsection \<open>Hints\<close>

text \<open>
  C2. A hint request is refused, with the state unchanged and no request sent, unless
  \<^verbatim>\<open>hintCoins > 0\<close> and the hint of the current question is unused. When it is granted,
  the click itself takes one coin and sets the latch; with the current question in
  range the request is sent. However the request settles, the coins stay one below
  and the latch stays set; a fulfilled request stores its text as the hint and a
  rejected one stores the apology.
\<close>

theorem hint_grant:
  "(hintCoins s \<le> 0 \<or> hintUsed s \<longrightarrow> handleGetHint s = (s, NoRequest))
   \<and> (0 < hintCoins s \<and> \<not> hintUsed s \<longrightarrow>
        fst (handleGetHint s) =
          s\<lparr>isHintLoading := True, hintUsed := True, hintCoins := hintCoins s - 1\<rparr>
        \<and> (currentQuestionIndex s < length (questions s) \<longrightarrow>
               (\<exists>prompt. snd (handleGetHint s) = Await prompt))
        \<and> (\<forall>r. hintCoins (handleGetHint_settled r (fst (handleGetHint s))) = hintCoins s - 1
               \<and> hintUsed (handleGetHint_settled r (fst (handleGetHint s)))
               \<and> \<not> isHintLoading (handleGetHint_settled r (fst (handleGetHint s))))
        \<and> (\<forall>text. hint (handleGetHint_settled (Fulfilled text) (fst (handleGetHint s)))
               = Some text)
        \<and> hint (handleGetHint_settled Rejected (fst (handleGetHint s)))
              = Some ''Sorry, couldn't get a hint right now.'')"
  by (auto simp add: handleGetHint_def handleGetHint_settled_def Let_def split: settled.splits)

theorem hint_grant_witness:
  "0 < hintCoins (asking ''7'' []) \<and> \<not> hintUsed (asking ''7'' [])
   \<and> currentQuestionIndex (asking ''7'' []) < length (questions (asking ''7'' []))
   \<and> hintCoins (handleGetHint_settled Rejected (fst (handleGetHint (asking ''7'' [])))) = 2
   \<and> hintUsed (handleGetHint_settled Rejected (fst (handleGetHint (asking ''7'' []))))
   \<and> hint (handleGetHint_settled Rejected (fst (handleGetHint (asking ''7'' []))))
       = Some ''Sorry, couldn't get a hint right now.''
   \<and> hintCoins ((asking ''7'' [])\<lparr>hintCoins := 0\<rparr>) \<le> 0
   \<and> handleGetHint ((asking ''7'' [])\<lparr>hintCoins := 0\<rparr>)
       = ((asking ''7'' [])\<lparr>hintCoins := 0\<rparr>, NoRequest)"
  using hint_grant [of "asking ''7'' []"] hint_grant [of "(asking ''7'' [])\<lparr>hintCoins := 0\<rparr>"]
  by (simp add: example_defs handleGetHint_def handleGetHint_settled_def)

text \<open>
  C8. Once the hint of the current question has been granted, a further request does
  nothing: the handler returns at line 125 with the state unchanged and sends no
  request, so no coin is taken and the stored hint text stays; the click on the hint
  button, disabled by line 252, does nothing either.
\<close>

theorem hint_twice:
  "hintUsed s \<Longrightarrow> handleGetHint s = (s, NoRequest) \<and> step HintClick s = s"
  by (simp add: handleGetHint_def)

theorem hint_twice_witness:
  "hintUsed (fst (handleGetHint (asking ''7'' [])))
   \<and> hintCoins (fst (handleGetHint (asking ''7'' []))) = 2
   \<and> handleGetHint (fst (handleGetHint (asking ''7'' [])))
       = (fst (handleGetHint (asking ''7'' [])), NoRequest)
   \<and> hintCoins (fst (handleGetHint (fst (handleGetHint (asking ''7'' []))))) = 2
   \<and> step HintClick (fst (handleGetHint (asking ''7'' []))) = fst (handleGetHint (asking ''7'' []))"
proof -
  have h: "hintUsed (fst (handleGetHint (asking ''7'' [])))"
    by (simp add: handleGetHint_def example_defs)
  have c: "hintCoins (fst (handleGetHint (asking ''7'' []))) = 2"
    by (simp add: handleGetHint_def example_defs)
  show ?thesis
    using h c hint_twice [OF h] by simp
qed

subsection \<open>The sorted, capped table\<close>

lemma compare_scores_le: "compare_scores a b \<le> 0 \<longleftrightarrow> ranks_before a b"
  by (auto simp add: compare_scores_def ranks_before_def)

lemma ranks_before_total: "\<not> ranks_before a b \<Longrightarrow> ranks_before b a"
  by (auto simp add: ranks_before_def)

lemma ranks_before_trans: "ranks_before a b \<Longrightarrow> ranks_before b c \<Longrightarrow> ranks_before a c"
  by (auto simp add: ranks_before_def)

lemma set_insert_sorted: "set (insert_sorted f x ys) = insert x (set ys)"
  by (induction ys) auto

lemma length_insert_sorted: "length (insert_sorted f x ys) = Suc (length ys)"
  by (induction ys) auto

lemma sorted_insert_sorted:
  "sorted_wrt ranks_before ys \<Longrightarrow> sorted_wrt ranks_before (insert_sorted compare_scores x ys)"
proof (induction ys)
  case Nil
  then show ?case by simp
next
  case (Cons y ys)
  show ?case
  proof (cases "compare_scores x y \<le> 0")
    case True
    then have xy: "ranks_before x y" by (simp add: compare_scores_le)
    have "\<forall>z \<in> set ys. ranks_before x z"
      using Cons.prems xy by (auto intro: ranks_before_trans)
    with True xy Cons.prems show ?thesis by simp
  next
    case False
    then have yx: "ranks_before y x"
      by (simp add: compare_scores_le ranks_before_total)
    with False Cons show ?thesis by (auto simp add: set_insert_sorted)
  qed
qed

lemma sorted_sort_js: "sorted_wrt ranks_before (sort_js compare_scores xs)"
  unfolding sort_js_def by (induction xs) (simp_all add: sorted_insert_sorted)

lemma length_sort_js: "length (sort_js f xs) = length xs"
  unfolding sort_js_def by (induction xs) (simp_all add: length_insert_sorted)

lemma set_sort_js: "set (sort_js f xs) = set xs"
  unfolding sort_js_def by (induction xs) (simp_all add: set_insert_sorted)

lemma sorted_take: "sorted_wrt P xs \<Longrightarrow> sorted_wrt P (take n xs)"
  by (induction xs arbitrary: n) (auto simp add: take_Cons' dest: in_set_takeD)

lemma highScores_handleSaveScore:
  "category s = Some c \<Longrightarrow> difficulty s = Some d \<Longrightarrow>
   highScores (handleSaveScore now s) =
     take 10 (sort_js compare_scores
       (highScores s @ [\<lparr>HighScore.score = score s, category = c, difficulty = d, date = now\<rparr>]))"
  by (simp add: handleSaveScore_def Let_def)

text \<open>
  C4. After a save (the handler past its guard of line 193), whatever the table and the
  new entry were, the table has at most 10 entries and is sorted by descending score,
  ties by descending date. So of two entries of the table with the same score, the one
  with the later date stands first: two entries that both score 3, B saved after A,
  are in the order B, A.
\<close>

theorem save_table:
  assumes "category s = Some c" and "difficulty s = Some d"
  shows "length (highScores (handleSaveScore now s)) \<le> 10
       \<and> sorted_wrt (\<lambda>a b. HighScore.score b < HighScore.score a
                        \<or> (HighScore.score b = HighScore.score a \<and> date b \<le> date a))
            (highScores (handleSaveScore now s))
       \<and> (\<forall>i j. i < length (highScores (handleSaveScore now s))
              \<and> j < length (highScores (handleSaveScore now s))
              \<and> HighScore.score (highScores (handleSaveScore now s) ! i)
                  = HighScore.score (highScores (handleSaveScore now s) ! j)
              \<and> date (highScores (handleSaveScore now s) ! j)
                  < date (highScores (handleSaveScore now s) ! i)
              \<longrightarrow> i < j)"
proof -
  let ?r = "highScores (handleSaveScore now s)"
  have r: "?r = take 10 (sort_js compare_scores
       (highScores s @ [\<lparr>HighScore.score = score s, category = c, difficulty = d, date = now\<rparr>]))"
    using assms by (rule highScores_handleSaveScore)
  have len: "length ?r \<le> 10" by (simp add: r)
  have srt: "sorted_wrt ranks_before ?r"
    unfolding r by (rule sorted_take) (rule sorted_sort_js)
  have pos: "i < j" if "i < length ?r" "j < length ?r"
      "HighScore.score (?r ! i) = HighScore.score (?r ! j)" "date (?r ! j) < date (?r ! i)" for i j
  proof (rule ccontr)
    assume "\<not> i < j"
    with that have "j < i" by (cases "i = j") auto
    with srt that have "ranks_before (?r ! j) (?r ! i)"
      by (simp add: sorted_wrt_iff_nth_less)
    with that show False by (simp add: ranks_before_def)
  qed
  from srt have "sorted_wrt (\<lambda>a b. HighScore.score b < HighScore.score a
                        \<or> (HighScore.score b = HighScore.score a \<and> date b \<le> date a)) ?r"
    by (simp add: ranks_before_def [abs_def])
  with len pos show ?thesis by blast
qed

text \<open>
  Two quizzes of five questions, three answers right in each, the first saved at time
  1000 and the second at time 2000: the second save leaves the table B, A.
\<close>

theorem save_table_witness:
  "category (run (quiz 5 [''2'', ''2'', ''2'', ''0'', ''0''] @ [SaveClick 1000, PlayAgainClick]
               @ quiz 5 [''0'', ''2'', ''0'', ''2'', ''2'']) (App_initial [] None)) = Some Arithmetic
   \<and> difficulty (run (quiz 5 [''2'', ''2'', ''2'', ''0'', ''0''] @ [SaveClick 1000, PlayAgainClick]
               @ quiz 5 [''0'', ''2'', ''0'', ''2'', ''2'']) (App_initial [] None)) = Some Easy
   \<and> highScores (handleSaveScore 2000
        (run (quiz 5 [''2'', ''2'', ''2'', ''0'', ''0''] @ [SaveClick 1000, PlayAgainClick]
               @ quiz 5 [''0'', ''2'', ''0'', ''2'', ''2'']) (App_initial [] None)))
       = [\<lparr>HighScore.score = 3, category = Arithmetic, difficulty = Easy, date = 2000\<rparr>,
          \<lparr>HighScore.score = 3, category = Arithmetic, difficulty = Easy, date = 1000\<rparr>]
   \<and> length (highScores (handleSaveScore 2000
        (run (quiz 5 [''2'', ''2'', ''2'', ''0'', ''0''] @ [SaveClick 1000, PlayAgainClick]
               @ quiz 5 [''0'', ''2'', ''0'', ''2'', ''2'']) (App_initial [] None)))) \<le> 10"
proof -
  let ?s = "run (quiz 5 [''2'', ''2'', ''2'', ''0'', ''0''] @ [SaveClick 1000, PlayAgainClick]
               @ quiz 5 [''0'', ''2'', ''0'', ''2'', ''2'']) (App_initial [] None)"
  have s: "?s = \<lparr>quizState = Finished, category = Some Arithmetic, difficulty = Some Easy,
      questions = batch 5, currentQuestionIndex = 4, userAnswer = [], feedback = None,
      score = 3, hintCoins = 3, hint = None, isHintLoading = False, hintUsed = False,
      highScores = [\<lparr>HighScore.score = 3, category = Arithmetic, difficulty = Easy, date = 1000\<rparr>],
      scoreSaved = False,
      localStorage = Some (JSON_stringify
        [\<lparr>HighScore.score = 3, category = Arithmetic, difficulty = Easy, date = 1000\<rparr>]),
      alerts = []\<rparr>"
    by (simp add: example_defs handler_defs string_defs sort_js_def compare_scores_def
        eval_nat_numeral)
  have c: "category ?s = Some Arithmetic" and d: "difficulty ?s = Some Easy"
    by (simp_all only: s App.simps)
  have t: "highScores (handleSaveScore 2000 ?s)
       = [\<lparr>HighScore.score = 3, category = Arithmetic, difficulty = Easy, date = 2000\<rparr>,
          \<lparr>HighScore.score = 3, category = Arithmetic, difficulty = Easy, date = 1000\<rparr>]"
    unfolding s by (simp add: handleSaveScore_def sort_js_def compare_scores_def Let_def)
  show ?thesis
    using c d t save_table [OF c d, of 2000] by simp
qed

subsection \<open>Sessions\<close>

lemma session_inv_initial: "session_inv (App_initial hs ls)"
  by (simp add: session_inv_def App_initial_def)

lemma session_inv_step:
  assumes inv: "session_inv s"
  shows "session_inv (step e s)"
proof (cases e)
  case (CategoryClick c)
  with inv show ?thesis
    by (auto simp add: session_inv_def handleCategorySelect_def)
next
  case BackClick
  with inv show ?thesis
    by (auto simp add: session_inv_def)
next
  case (DifficultyClick d)
  with inv show ?thesis
    by (auto simp add: session_inv_def generateQuestions_def split: option.splits)
next
  case (QuestionsSettled r)
  with inv show ?thesis
    by (auto simp add: session_inv_def generateQuestions_settled_def generateQuestions_catch_def
        resetQuiz_def split: settled.splits response_text.splits option.splits)
next
  case (AnswerChange v)
  with inv show ?thesis
    by (auto simp add: session_inv_def)
next
  case HintClick
  with inv show ?thesis
    by (auto simp add: session_inv_def handleGetHint_def Let_def)
next
  case (HintSettled r)
  with inv show ?thesis
    by (auto simp add: session_inv_def handleGetHint_settled_def
        split: settled.splits QuizState.splits)
next
  case SubmitForm
  with inv show ?thesis
    by (auto simp add: session_inv_def handleAnswerSubmit_def Let_def)
next
  case NextClick
  with inv show ?thesis
    by (auto simp add: session_inv_def handleNextQuestion_def Let_def)
next
  case (SaveClick now)
  with inv show ?thesis
    by (auto simp add: session_inv_def handleSaveScore_def Let_def split: option.splits)
next
  case PlayAgainClick
  with inv show ?thesis
    by (auto simp add: session_inv_def resetQuiz_def)
next
  case ClearClick
  with inv show ?thesis
    by (auto simp add: session_inv_def handleClearScores_def)
qed

lemma session_inv_run: "session_inv s \<Longrightarrow> session_inv (run es s)"
  by (induction es arbitrary: s) (simp_all add: session_inv_step)

lemma session_inv_reachable: "session_inv (run es (App_initial hs ls))"
  by (rule session_inv_run) (rule session_inv_initial)

lemma session_inv_score: "session_inv s \<Longrightarrow> score s \<le> int (length (questions s))"
  by (auto simp add: session_inv_def split: QuizState.splits)

lemma questions_step:
  "batch_within n e \<Longrightarrow> length (questions s) \<le> n \<Longrightarrow> length (questions (step e s)) \<le> n"
  by (cases e) (auto simp add: handler_defs split: settled.splits response_text.splits option.splits)

lemma questions_run:
  "list_all (batch_within n) es \<Longrightarrow> length (questions s) \<le> n
   \<Longrightarrow> length (questions (run es s)) \<le> n"
  by (induction es arbitrary: s) (simp_all add: questions_step)

lemma score_step:
  "session_inv s \<Longrightarrow> quizState (step e s) = Idle \<or> score s \<le> score (step e s)"
  by (cases e) (auto simp add: handler_defs split: settled.splits response_text.splits option.splits)

text \<open>
  C5, as the code has it. In every state of every session the score is between 0 and
  the number of questions of the loaded batch, and so at most 5 when no batch has more
  than the 5 questions asked for; the hint coins are between 0 and 3 and start at 3. The
  score never decreases from one state to the next, except that a reset returns to
  \<^verbatim>\<open>idle\<close>, where it is 0.
\<close>

theorem session_bounds:
  "0 \<le> score (run es (App_initial hs ls))
   \<and> score (run es (App_initial hs ls)) \<le> int (length (questions (run es (App_initial hs ls))))
   \<and> (list_all (batch_within 5) es \<longrightarrow> score (run es (App_initial hs ls)) \<le> 5)
   \<and> 0 \<le> hintCoins (run es (App_initial hs ls))
   \<and> hintCoins (run es (App_initial hs ls)) \<le> 3
   \<and> hintCoins (App_initial hs ls) = 3
   \<and> (quizState (step e (run es (App_initial hs ls))) = Idle
        \<or> score (run es (App_initial hs ls)) \<le> score (step e (run es (App_initial hs ls))))"
proof -
  let ?s = "run es (App_initial hs ls)"
  have inv: "session_inv ?s" by (rule session_inv_reachable)
  then have a: "0 \<le> score ?s" "0 \<le> hintCoins ?s" "hintCoins ?s \<le> 3"
    by (simp_all add: session_inv_def)
  from inv have b: "score ?s \<le> int (length (questions ?s))"
    by (rule session_inv_score)
  have c: "score ?s \<le> 5" if "list_all (batch_within 5) es"
  proof -
    have "length (questions ?s) \<le> 5"
      using that by (rule questions_run) (simp add: App_initial_def)
    with b show ?thesis by simp
  qed
  have d: "hintCoins (App_initial hs ls) = 3" by (simp add: App_initial_def)
  from inv have e: "quizState (step e ?s) = Idle \<or> score ?s \<le> score (step e ?s)"
    by (rule score_step)
  from a b c d e show ?thesis by blast
qed

text \<open>A quiz of five questions, all answered right, with a hint taken on the way.\<close>

theorem session_bounds_witness:
  "list_all (batch_within 5) (quiz 5 [''2'', ''2'', ''2'', ''2''] @ [HintClick, AnswerChange ''2''])
   \<and> score (run (quiz 5 [''2'', ''2'', ''2'', ''2''] @ [HintClick, AnswerChange ''2''])
        (App_initial [] None)) = 4
   \<and> hintCoins (run (quiz 5 [''2'', ''2'', ''2'', ''2''] @ [HintClick, AnswerChange ''2''])
        (App_initial [] None)) = 2
   \<and> score (step SubmitForm (run (quiz 5 [''2'', ''2'', ''2'', ''2''] @ [HintClick, AnswerChange ''2''])
        (App_initial [] None))) = 5
   \<and> quizState (step SubmitForm (run (quiz 5 [''2'', ''2'', ''2'', ''2''] @ [HintClick, AnswerChange ''2''])
        (App_initial [] None))) \<noteq> Idle"
  using session_bounds [of "quiz 5 [''2'', ''2'', ''2'', ''2''] @ [HintClick, AnswerChange ''2'']"
      "[]" None SubmitForm]
  by (simp add: example_defs handler_defs string_defs eval_nat_numeral)

text \<open>
  The bound 5 does not hold of every session: when the provider returns six questions
  the batch is accepted (line 107 only asks for a non-empty one) and six right answers
  score 6.
\<close>

theorem session_bounds_counterexample:
  "\<not> score (run (quiz 6 [''2'', ''2'', ''2'', ''2'', ''2'', ''2'']) (App_initial [] None)) \<le> 5"
  by (simp add: example_defs handler_defs string_defs eval_nat_numeral)

text \<open>
  C3. On the results screen the save button works once: in every \<^verbatim>\<open>finished\<close> state of
  every session, a click on it leaves the score marked as saved, and a second click
  (the button is disabled by line 280) changes nothing, so the table and the stored
  entry stay as the first save left them. It is the button that makes the save
  happen once; \<^const>\<open>handleSaveScore\<close> does not read \<^verbatim>\<open>scoreSaved\<close>.
\<close>

theorem save_once:
  assumes "quizState (run es (App_initial hs ls)) = Finished"
  shows "scoreSaved (step (SaveClick t1) (run es (App_initial hs ls)))
       \<and> step (SaveClick t2) (step (SaveClick t1) (run es (App_initial hs ls)))
           = step (SaveClick t1) (run es (App_initial hs ls))
       \<and> highScores (step (SaveClick t2) (step (SaveClick t1) (run es (App_initial hs ls))))
           = highScores (step (SaveClick t1) (run es (App_initial hs ls)))
       \<and> localStorage (step (SaveClick t2) (step (SaveClick t1) (run es (App_initial hs ls))))
           = localStorage (step (SaveClick t1) (run es (App_initial hs ls)))"
proof -
  let ?s = "run es (App_initial hs ls)"
  have "session_inv ?s" by (rule session_inv_reachable)
  with assms obtain c d where cd: "category ?s = Some c" "difficulty ?s = Some d"
    by (auto simp add: session_inv_def)
  have saved: "scoreSaved (step (SaveClick t1) ?s)"
    using assms cd by (simp add: handleSaveScore_def Let_def)
  then show ?thesis by simp
qed

theorem save_once_witness:
  "quizState (run (quiz 1 [''2'']) (App_initial [] None)) = Finished
   \<and> highScores (step (SaveClick 1000) (run (quiz 1 [''2'']) (App_initial [] None)))
       = [\<lparr>HighScore.score = 1, category = Arithmetic, difficulty = Easy, date = 1000\<rparr>]
   \<and> highScores (step (SaveClick 2000) (step (SaveClick 1000)
         (run (quiz 1 [''2'']) (App_initial [] None))))
       = [\<lparr>HighScore.score = 1, category = Arithmetic, difficulty = Easy, date = 1000\<rparr>]
   \<and> localStorage (step (SaveClick 2000) (step (SaveClick 1000)
         (run (quiz 1 [''2'']) (App_initial [] None))))
       = localStorage (step (SaveClick 1000) (run (quiz 1 [''2'']) (App_initial [] None)))"
proof -
  have f: "quizState (run (quiz 1 [''2'']) (App_initial [] None)) = Finished"
    by (simp add: example_defs handler_defs string_defs)
  have t: "highScores (step (SaveClick 1000) (run (quiz 1 [''2'']) (App_initial [] None)))
       = [\<lparr>HighScore.score = 1, category = Arithmetic, difficulty = Easy, date = 1000\<rparr>]"
    by (simp add: example_defs handler_defs string_defs sort_js_def)
  show ?thesis
    using f t save_once [OF f, of 1000 2000] by simp
qed

text \<open>
  C6. In every \<^verbatim>\<open>loading\<close> state of every session: when the request is rejected, or
  its text does not parse, or has no list of questions or an empty one, the \<^verbatim>\<open>catch\<close>
  block alerts the user and resets the quiz, which is then \<^verbatim>\<open>idle\<close> with no category,
  no difficulty, score 0, three hint coins, no hint and the latch open; when it
  delivers at least one question, the quiz is \<^verbatim>\<open>active\<close> on these questions with index
  0, score 0 and three hint coins. (\<^verbatim>\<open>isHintLoading\<close> is not among the cells that
  \<^verbatim>\<open>resetQuiz\<close> sets: it follows the hint request, which may still be pending.)
\<close>

theorem loading_outcome:
  assumes "quizState (run es (App_initial hs ls)) = Loading"
  shows "(r = Rejected \<or> r = Fulfilled Unparsable \<or> r = Fulfilled (Parsed None)
            \<or> r = Fulfilled (Parsed (Some [])) \<longrightarrow>
          step (QuestionsSettled r) (run es (App_initial hs ls))
            = resetQuiz ((run es (App_initial hs ls))\<lparr>alerts := alerts (run es (App_initial hs ls)) @
                [''Sorry, there was an error generating the quiz. Please try again.'']\<rparr>)
          \<and> quizState (step (QuestionsSettled r) (run es (App_initial hs ls))) = Idle
          \<and> category (step (QuestionsSettled r) (run es (App_initial hs ls))) = None
          \<and> difficulty (step (QuestionsSettled r) (run es (App_initial hs ls))) = None
          \<and> questions (step (QuestionsSettled r) (run es (App_initial hs ls))) = []
          \<and> currentQuestionIndex (step (QuestionsSettled r) (run es (App_initial hs ls))) = 0
          \<and> score (step (QuestionsSettled r) (run es (App_initial hs ls))) = 0
          \<and> hintCoins (step (QuestionsSettled r) (run es (App_initial hs ls))) = 3
          \<and> hint (step (QuestionsSettled r) (run es (App_initial hs ls))) = None
          \<and> \<not> hintUsed (step (QuestionsSettled r) (run es (App_initial hs ls)))
          \<and> alerts (step (QuestionsSettled r) (run es (App_initial hs ls)))
              = alerts (run es (App_initial hs ls)) @
                [''Sorry, there was an error generating the quiz. Please try again.''])
       \<and> (qs \<noteq> [] \<longrightarrow>
          quizState (step (QuestionsSettled (Fulfilled (Parsed (Some qs)))) (run es (App_initial hs ls))) = Active
          \<and> questions (step (QuestionsSettled (Fulfilled (Parsed (Some qs)))) (run es (App_initial hs ls))) = qs
          \<and> currentQuestionIndex (step (QuestionsSettled (Fulfilled (Parsed (Some qs)))) (run es (App_initial hs ls))) = 0
          \<and> score (step (QuestionsSettled (Fulfilled (Parsed (Some qs)))) (run es (App_initial hs ls))) = 0
          \<and> hintCoins (step (QuestionsSettled (Fulfilled (Parsed (Some qs)))) (run es (App_initial hs ls))) = 3)"
proof -
  let ?s = "run es (App_initial hs ls)"
  have "session_inv ?s" by (rule session_inv_reachable)
  with assms have l: "score ?s = 0" "currentQuestionIndex ?s = 0" "hintCoins ?s = 3"
    by (simp_all add: session_inv_def)
  have fail: "step (QuestionsSettled r) ?s = generateQuestions_catch ?s"
    if "r = Rejected \<or> r = Fulfilled Unparsable \<or> r = Fulfilled (Parsed None)
            \<or> r = Fulfilled (Parsed (Some []))"
    using that assms by (auto simp add: generateQuestions_settled_def)
  have ok: "step (QuestionsSettled (Fulfilled (Parsed (Some qs)))) ?s
      = ?s\<lparr>questions := qs, quizState := Active\<rparr>" if "qs \<noteq> []"
    using that assms by (simp add: generateQuestions_settled_def)
  show ?thesis
    using fail ok l by (auto simp add: generateQuestions_catch_def resetQuiz_def)
qed

theorem loading_outcome_witness:
  "quizState (run [CategoryClick Geometry, DifficultyClick Hard] (App_initial [] None)) = Loading
   \<and> quizState (step (QuestionsSettled (Fulfilled (Parsed (Some []))))
        (run [CategoryClick Geometry, DifficultyClick Hard] (App_initial [] None))) = Idle
   \<and> category (step (QuestionsSettled (Fulfilled (Parsed (Some []))))
        (run [CategoryClick Geometry, DifficultyClick Hard] (App_initial [] None))) = None
   \<and> alerts (step (QuestionsSettled (Fulfilled (Parsed (Some []))))
        (run [CategoryClick Geometry, DifficultyClick Hard] (App_initial [] None)))
       = [''Sorry, there was an error generating the quiz. Please try again.'']
   \<and> batch 5 \<noteq> []
   \<and> quizState (step (QuestionsSettled (Fulfilled (Parsed (Some (batch 5)))))
        (run [CategoryClick Geometry, DifficultyClick Hard] (App_initial [] None))) = Active
   \<and> hintCoins (step (QuestionsSettled (Fulfilled (Parsed (Some (batch 5)))))
        (run [CategoryClick Geometry, DifficultyClick Hard] (App_initial [] None))) = 3"
proof -
  have l: "quizState (run [CategoryClick Geometry, DifficultyClick Hard] (App_initial [] None))
      = Loading"
    by (simp add: example_defs handler_defs)
  have b: "batch 5 \<noteq> []" by (simp add: batch_def eval_nat_numeral)
  have a: "alerts (run [CategoryClick Geometry, DifficultyClick Hard] (App_initial [] None)) = []"
    by (simp add: example_defs handler_defs)
  show ?thesis
    using l b a loading_outcome [OF l, of "Fulfilled (Parsed (Some []))" "batch 5"]
    by (simp add: example_defs handler_defs)
qed

subsection \<open>The stored table\<close>

lemmas json_defs =
  JSON_parse_def is_json_ws_def is_digit_def is_number_char_def is_word_char_def
  punctuator_def escape_def hex_value_def digits_value_def exponent_value_def number_value_def
  word_value_def emit_def emit_before_def
  define_property_def is_array_index_def index_value_def comes_before_def

text \<open>
  What a save stores is read back by \<^verbatim>\<open>JSON.parse\<close> as an array of one object for each
  entry.
\<close>

lemma stored_table_example:
  \<open>JSON_stringify [\<lparr>HighScore.score = 3, category = Algebra, difficulty = Hard, date = 1700\<rparr>]
     = ''[{"score":3,"category":"Algebra","difficulty":"Hard","date":1700}]''
   \<and> JSON_parse ''[{"score":3,"category":"Algebra","difficulty":"Hard","date":1700}]''
     = Inr (JArray [JObject [(units ''score'', JNumber 3),
                             (units ''category'', JString (units ''Algebra'')),
                             (units ''difficulty'', JString (units ''Hard'')),
                             (units ''date'', JNumber 1700)]])\<close>
proof -
  have a: \<open>JSON_stringify [\<lparr>HighScore.score = 3, category = Algebra, difficulty = Hard, date = 1700\<rparr>]
     = ''[{"score":3,"category":"Algebra","difficulty":"Hard","date":1700}]''\<close>
    by (simp add: JSON_stringify_def stringify_HighScore_def show_int_def show_nat.simps
        digit_char_def)
  have b: \<open>JSON_parse ''[{"score":3,"category":"Algebra","difficulty":"Hard","date":1700}]''
     = Inr (JArray [JObject [(units ''score'', JNumber 3),
                             (units ''category'', JString (units ''Algebra'')),
                             (units ''difficulty'', JString (units ''Hard'')),
                             (units ''date'', JNumber 1700)]])\<close>
    by (simp add: json_defs units_def)
  from a b show ?thesis by simp
qed

lemma JSON_parse_error: "JSON_parse t = Inl e \<Longrightarrow> e = SyntaxError"
  by (auto simp add: JSON_parse_def split: option.splits)

text \<open>
  What the load effect does with each kind of entry: it never raises; a missing entry,
  the empty string and a text that \<^verbatim>\<open>JSON.parse\<close> rejects (the \<^verbatim>\<open>catch\<close> block logs the
  error) leave the empty array in the cell; any other text puts the value that
  \<^verbatim>\<open>JSON.parse\<close> returns into the cell.
\<close>

lemma load_highScores_cases:
  "(\<exists>v. load_highScores ls = Inr v)
   \<and> (ls = None \<or> ls = Some [] \<or> (\<exists>t e. ls = Some t \<and> JSON_parse t = Inl e)
        \<longrightarrow> load_highScores ls = Inr (JArray []))
   \<and> (\<forall>t v. ls = Some t \<and> t \<noteq> [] \<and> JSON_parse t = Inr v \<longrightarrow> load_highScores ls = Inr v)"
  by (auto simp add: load_highScores_def load_try_def split: option.splits sum.splits)

lemma load_highScores_examples:
  \<open>load_highScores (Some ''[{"score":3,'') = Inr (JArray [])
   \<and> load_highScores None = Inr (JArray [])
   \<and> load_highScores (Some ''[]'') = Inr (JArray [])\<close>
  by (simp add: load_highScores_def load_try_def json_defs)

text \<open>
  C7. The load is to give the empty table whenever the stored entry is missing, corrupt
  or unparsable. The effect does so for a missing entry and for a text that is not JSON,
  and its \<^verbatim>\<open>try\<close> and \<^verbatim>\<open>catch\<close> are there for that; but a corrupt entry that is still
  JSON is put into the cell unchecked. On the stored text \<^verbatim>\<open>[null]\<close> the table becomes
  an array of one entry, \<^verbatim>\<open>null\<close>, and on \<^verbatim>\<open>null\<close> it becomes \<^verbatim>\<open>null\<close>: neither is the
  empty table.
\<close>

theorem load_corrupt_entry:
  "load_highScores (Some ''[null]'') = Inr (JArray [JNull])
   \<and> load_highScores (Some ''[null]'') \<noteq> Inr (JArray [])
   \<and> load_highScores (Some ''null'') = Inr JNull
   \<and> load_highScores (Some ''null'') \<noteq> Inr (JArray [])"
  by (simp add: load_highScores_def load_try_def json_defs)

text \<open>
  C9. Clearing empties the table and removes the stored entry, whatever the table was;
  that is the stored form of the empty table, for the load effect reads a missing entry
  as the empty array.
\<close>

theorem clear_then_load:
  "highScores (handleClearScores s) = []
   \<and> localStorage (handleClearScores s) = None
   \<and> load_highScores (localStorage (handleClearScores s)) = Inr (JArray [])"
  by (simp add: handleClearScores_def load_highScores_def load_try_def)

end
